theory Spec2Isabelle
  imports Main "HOL-Library.Word"
begin

unbundle bit_operations_syntax

section \<open>Go values\<close>

text \<open>
  The program of \<^verbatim>\<open>cmd/rpcfuzz/rpcfuzz.go\<close> handles values of the empty interface
  type: the decoded result of a JSON-RPC call (\<^verbatim>\<open>nil\<close>, \<^verbatim>\<open>bool\<close>, \<^verbatim>\<open>float64\<close>,
  \<^verbatim>\<open>string\<close>, \<^verbatim>\<open>[]interface{}\<close>, \<^verbatim>\<open>map[string]interface{}\<close>), the error of a call,
  and the \<^verbatim>\<open>int\<close> that \<^verbatim>\<open>len\<close> returns. A \<^verbatim>\<open>float64\<close> is its IEEE 754 bit pattern, an
  \<^verbatim>\<open>int\<close> a 64-bit word. An error made by a library (rpc, json, gojsonschema, crypto) is
  a pointer-typed value: the number identifies the object, the string is what its
  \<^verbatim>\<open>Error()\<close> method returns.
\<close>

datatype ext_error = ExtError nat string

datatype gvalue =
    GNil
  | GBool bool
  | GInt "64 word"
  | GFloat64 "64 word"
  | GString string
  | GSlice "gvalue list"
  | GMap "(string \<times> gvalue) list"
  | GError ext_error

text \<open>
  An \<^verbatim>\<open>error\<close> returned by the functions of the file: either built by
  \<^verbatim>\<open>fmt.Errorf(format, args...)\<close>, kept as the format and its arguments (the message is
  the format with each verb replaced by the printed argument), or an error of a library
  passed on unchanged. \<^verbatim>\<open>nil\<close> is \<open>None\<close>.
\<close>

datatype go_error = Errorf string "gvalue list" | LibError ext_error

text \<open>The run-time panics the code can raise.\<close>

datatype panic =
    RegexpMustCompile string
  | UncomparableType
  | IndexOutOfRange
  | SliceBoundsOutOfRange
  | NilFuncCall

fun Error_msg :: "ext_error \<Rightarrow> string" where
  "Error_msg (ExtError a m) = m"

subsection \<open>Comparison of interface values\<close>

definition float64_isNaN :: "64 word \<Rightarrow> bool" where
  "float64_isNaN b \<longleftrightarrow>
     b AND 0x7FF0000000000000 = 0x7FF0000000000000 \<and> b AND 0x000FFFFFFFFFFFFF \<noteq> 0"

definition float64_isZero :: "64 word \<Rightarrow> bool" where
  "float64_isZero b \<longleftrightarrow> b AND 0x7FFFFFFFFFFFFFFF = 0"

definition float64_eq :: "64 word \<Rightarrow> 64 word \<Rightarrow> bool" where
  "float64_eq a b \<longleftrightarrow>
     \<not> float64_isNaN a \<and> \<not> float64_isNaN b \<and> (a = b \<or> (float64_isZero a \<and> float64_isZero b))"

text \<open>
  Go's \<^verbatim>\<open>==\<close> on two interface values: they are equal when their dynamic types are
  identical and their dynamic values are equal (or both are nil); comparing two
  values of the same non-comparable dynamic type (a slice, a map) panics.
\<close>

fun iface_eq :: "gvalue \<Rightarrow> gvalue \<Rightarrow> panic + bool" where
  "iface_eq GNil GNil = Inr True"
| "iface_eq (GBool a) (GBool b) = Inr (a = b)"
| "iface_eq (GInt a) (GInt b) = Inr (a = b)"
| "iface_eq (GFloat64 a) (GFloat64 b) = Inr (float64_eq a b)"
| "iface_eq (GString a) (GString b) = Inr (a = b)"
| "iface_eq (GSlice a) (GSlice b) = Inl UncomparableType"
| "iface_eq (GMap a) (GMap b) = Inl UncomparableType"
| "iface_eq (GError a) (GError b) = Inr (a = b)"
| "iface_eq _ _ = Inr False"

section \<open>Validators\<close>

text \<open>
  A validator is a Go function value \<^verbatim>\<open>func(result interface{}) error\<close>. A function
  value may have effects (a test double counts its calls), so a validator takes the
  state \<open>'w\<close> of everything outside the engine and returns the new one, beside its
  result: a panic, or the returned \<^verbatim>\<open>error\<close>.
\<close>

type_synonym 'w validator = "gvalue \<Rightarrow> 'w \<Rightarrow> (panic + go_error option) \<times> 'w"

fun ChainValidator :: "'w validator list \<Rightarrow> 'w validator" where
  "ChainValidator [] result w = (Inr (Some (Errorf ''All Validation failed'' [])), w)"
| "ChainValidator (v # validators) result w =
     (case v result w of
        (Inl p, w') \<Rightarrow> (Inl p, w')
      | (Inr None, w') \<Rightarrow> (Inr None, w')
      | (Inr (Some err), w') \<Rightarrow> ChainValidator validators result w')"

text \<open>
  The libraries the validators call are parameters: \<^verbatim>\<open>json.Marshal\<close>, which returns the
  JSON text or an error; \<^verbatim>\<open>gojsonschema.Validate\<close> on two string loaders (the schema and
  the document), which returns an error or a result with its \<^verbatim>\<open>Valid()\<close> flag and the
  \<^verbatim>\<open>String()\<close> of each of its \<^verbatim>\<open>Errors()\<close>; \<^verbatim>\<open>regexp.MustCompile\<close>, which returns the
  compiled expression, here its \<^verbatim>\<open>MatchString\<close> method, or panics (\<open>None\<close>).
\<close>

record schema_result =
  Valid :: bool
  Errors :: "string list"

type_synonym json_marshal = "gvalue \<Rightarrow> ext_error + string"
type_synonym schema_validate = "string \<Rightarrow> string \<Rightarrow> ext_error + schema_result"
type_synonym regexp = "string \<Rightarrow> bool"
type_synonym regexp_compile = "string \<Rightarrow> regexp option"

definition ValidateJSONSchema :: "json_marshal \<Rightarrow> schema_validate \<Rightarrow> string \<Rightarrow> 'w validator" where
  "ValidateJSONSchema Marshal SchemaValidate schema = (\<lambda>result w.
     ((case Marshal result of
        Inl err \<Rightarrow>
          Inr (Some (Errorf ''Unable to marshal result back to json for validation: %w'' [GError err]))
      | Inr jsonBytes \<Rightarrow>
          (case SchemaValidate schema jsonBytes of
             Inl err \<Rightarrow> Inr (Some (Errorf ''Unable to run json validation: %w'' [GError err]))
           | Inr validatorResult \<Rightarrow>
               if \<not> Valid validatorResult then
                 Inr (Some (Errorf ''The json document is not valid: %s''
                   [GString (foldl (\<lambda>errStr desc. errStr @ desc @ [CHR 0x0A]) [] (Errors validatorResult))]))
               else Inr None)), w))"

definition ValidateExact :: "gvalue \<Rightarrow> 'w validator" where
  "ValidateExact expected = (\<lambda>result w.
     ((case iface_eq expected result of
        Inl p \<Rightarrow> Inl p
      | Inr equal \<Rightarrow>
          if \<not> equal then Inr (Some (Errorf ''Expected %v and got %v'' [expected, result]))
          else Inr None), w))"

definition ValidateRegexString :: "regexp_compile \<Rightarrow> string \<Rightarrow> panic + 'w validator" where
  "ValidateRegexString MustCompile regEx =
     (case MustCompile regEx of
        None \<Rightarrow> Inl (RegexpMustCompile regEx)
      | Some r \<Rightarrow> Inr (\<lambda>result w.
          ((case result of
             GString resultStr \<Rightarrow>
               if \<not> r resultStr then
                 Inr (Some (Errorf ''The regex %s failed to match result %s'' [GString regEx, GString resultStr]))
               else Inr None
           | _ \<Rightarrow> Inr (Some (Errorf ''Invalid result type. Expected string but got %T'' [result]))), w)))"

definition ValidateError :: "regexp_compile \<Rightarrow> string \<Rightarrow> panic + 'w validator" where
  "ValidateError MustCompile errorMessageRegex =
     (case MustCompile errorMessageRegex of
        None \<Rightarrow> Inl (RegexpMustCompile errorMessageRegex)
      | Some r \<Rightarrow> Inr (\<lambda>result w.
          ((case result of
             GError resultError \<Rightarrow>
               if \<not> r (Error_msg resultError) then
                 Inr (Some (Errorf ''The regex %s failed to match result %s''
                   [GString errorMessageRegex, GString (Error_msg resultError)]))
               else Inr None
           | _ \<Rightarrow> Inr (Some (Errorf ''Invalid result type. Expected error but got %T'' [result]))), w)))"

text \<open>
  \<open>fails_through vs result w\<close> is the state left when each validator of \<open>vs\<close>, called in
  order on \<open>result\<close> from the state \<open>w\<close>, has returned an error; it is \<open>None\<close> as soon as
  one of them returns \<^verbatim>\<open>nil\<close> or panics.
\<close>

fun fails_through :: "'w validator list \<Rightarrow> gvalue \<Rightarrow> 'w \<Rightarrow> 'w option" where
  "fails_through [] result w = Some w"
| "fails_through (v # vs) result w =
     (case v result w of
        (Inr (Some err), w') \<Rightarrow> fails_through vs result w'
      | _ \<Rightarrow> None)"

section \<open>Test cases\<close>

text \<open>
  \<^verbatim>\<open>RPCTestGeneric\<close> is the one implementation of the interface \<^verbatim>\<open>RPCTest\<close>; its four
  methods return the fields.
\<close>

record 'w RPCTestGeneric =
  Method :: string
  Args :: "gvalue list"
  Validator :: "'w validator"
  IsError :: bool

definition GetMethod :: "'w RPCTestGeneric \<Rightarrow> string" where
  "GetMethod r = Method r"

definition GetArgs :: "'w RPCTestGeneric \<Rightarrow> gvalue list" where
  "GetArgs r = Args r"

definition Validate :: "'w RPCTestGeneric \<Rightarrow> 'w validator" where
  "Validate r result = Validator r result"

definition ExpectError :: "'w RPCTestGeneric \<Rightarrow> bool" where
  "ExpectError r = IsError r"

section \<open>The engine\<close>

text \<open>
  A line of the log: the level, the error given to \<^verbatim>\<open>Err\<close>, the fields given to \<^verbatim>\<open>Str\<close>
  and the message.
\<close>

datatype level = TraceLevel | InfoLevel | ErrorLevel

record log_event =
  ev_level :: level
  ev_err :: "go_error option"
  ev_str :: "(string \<times> string) list"
  ev_msg :: string

text \<open>
  \<^verbatim>\<open>rpcClient.CallContext(cxt, &result, method, args...)\<close> is the library's: from the
  state of the outside it gives what \<^verbatim>\<open>result\<close> holds after the call (\<^verbatim>\<open>nil\<close> when the call
  left it alone), the returned error, and the new state.
\<close>

type_synonym call_outcome = "gvalue \<times> ext_error option"

type_synonym 'w rpc_client = "string \<Rightarrow> gvalue list \<Rightarrow> 'w \<Rightarrow> call_outcome \<times> 'w"

text \<open>The variable \<^verbatim>\<open>err\<close>, of type \<^verbatim>\<open>error\<close>, passed as an \<^verbatim>\<open>interface{}\<close>.\<close>

fun error_iface :: "ext_error option \<Rightarrow> gvalue" where
  "error_iface None = GNil"
| "error_iface (Some e) = GError e"

text \<open>
  The four lines that the loop logs for a test, by its method:
  \<^verbatim>\<open>log.Trace().Str("method", m).Msg("Running Test")\<close>,
  \<^verbatim>\<open>log.Error().Err(err).Str("method", m).Msg("Method test failed")\<close>,
  \<^verbatim>\<open>log.Error().Err(err).Str("method", m).Msg("Failed to validate")\<close> and
  \<^verbatim>\<open>log.Info().Str("method", m).Msg("Successfully validated")\<close>.
\<close>

definition running_event :: "string \<Rightarrow> log_event" where
  "running_event m =
     \<lparr>ev_level = TraceLevel, ev_err = None, ev_str = [(''method'', m)], ev_msg = ''Running Test''\<rparr>"

definition call_failed_event :: "string \<Rightarrow> ext_error option \<Rightarrow> log_event" where
  "call_failed_event m err =
     \<lparr>ev_level = ErrorLevel, ev_err = map_option LibError err, ev_str = [(''method'', m)],
      ev_msg = ''Method test failed''\<rparr>"

definition validation_failed_event :: "string \<Rightarrow> go_error option \<Rightarrow> log_event" where
  "validation_failed_event m err =
     \<lparr>ev_level = ErrorLevel, ev_err = err, ev_str = [(''method'', m)],
      ev_msg = ''Failed to validate''\<rparr>"

definition validated_event :: "string \<Rightarrow> log_event" where
  "validated_event m =
     \<lparr>ev_level = InfoLevel, ev_err = None, ev_str = [(''method'', m)],
      ev_msg = ''Successfully validated''\<rparr>"

text \<open>
  One iteration of the loop of \<^verbatim>\<open>RunE\<close>: the panic that ended it if any, the lines it
  logged and the state it left.
\<close>

definition run_test :: "'w rpc_client \<Rightarrow> 'w RPCTestGeneric \<Rightarrow> 'w \<Rightarrow> panic option \<times> log_event list \<times> 'w" where
  "run_test CallContext t w =
     (case CallContext (GetMethod t) (GetArgs t) w of
        ((result, err), w1) \<Rightarrow>
          if err \<noteq> None \<and> \<not> ExpectError t then
            (None, [running_event (GetMethod t), call_failed_event (GetMethod t) err], w1)
          else
            (case (if ExpectError t then Validate t (error_iface err) w1
                   else Validate t result w1) of
               (Inl p, w2) \<Rightarrow> (Some p, [running_event (GetMethod t)], w2)
             | (Inr err', w2) \<Rightarrow>
                 if err' \<noteq> None then
                   (None, [running_event (GetMethod t), validation_failed_event (GetMethod t) err'], w2)
                 else
                   (None, [running_event (GetMethod t), validated_event (GetMethod t)], w2)))"

text \<open>The loop over \<^verbatim>\<open>allTests\<close>: a panic ends it, nothing else does.\<close>

fun run_tests :: "'w rpc_client \<Rightarrow> 'w RPCTestGeneric list \<Rightarrow> 'w \<Rightarrow> panic option \<times> log_event list \<times> 'w" where
  "run_tests CallContext [] w = (None, [], w)"
| "run_tests CallContext (t # ts) w =
     (case run_test CallContext t w of
        (Some p, evs, w') \<Rightarrow> (Some p, evs, w')
      | (None, evs, w') \<Rightarrow>
          (case run_tests CallContext ts w' of (r, evs', w'') \<Rightarrow> (r, evs @ evs', w'')))"

section \<open>The registry\<close>

text \<open>
  The package-level variables that hold the test cases. \<^verbatim>\<open>allTests\<close> is a slice of
  pointers to them: an element of \<^verbatim>\<open>allTests\<close> is the name of a variable, and the test it
  stands for is what the variable holds when it is read.
\<close>

datatype test_var =
    RPCTestNetVersion
  | RPCTestWeb3ClientVersion
  | RPCTestWeb3SHA3
  | RPCTestWeb3SHA3Error
  | RPCTestNetListening
  | RPCTestNetPeerCount
  | RPCTestEthProtocolVersion
  | RPCTestEthSyncing
  | RPCTestEthCoinbase
  | RPCTestEthChainID
  | RPCTestEthMining
  | RPCTestEthHashrate
  | RPCTestEthGasPrice
  | RPCTestEthAccounts
  | RPCTestEthBlockNumber
  | RPCTestEthGetBalanceLatest
  | RPCTestEthGetBalanceEarliest
  | RPCTestEthGetBalancePending
  | RPCTestEthGetStorageAtLatest
  | RPCTestEthGetStorageAtEarliest
  | RPCTestEthGetStorageAtPending
  | RPCTestEthGetTransactionCountAtLatest
  | RPCTestEthGetTransactionCountAtEarliest
  | RPCTestEthGetTransactionCountAtPending
  | RPCTestEthBlockByNumber

text \<open>
  The other package-level variables, as they are once \<^verbatim>\<open>init\<close> has run and the flags are
  parsed: the two flags, the private key (\<^verbatim>\<open>nil\<close> until \<^verbatim>\<open>Args\<close> sets it, its secret
  number after) and the address (20 bytes).
\<close>

record 'w globals =
  testPrivateHexKey :: string
  testContractAddress :: string
  testPrivateKey :: "nat option"
  testEthAddress :: "160 word"
  test_vars :: "test_var \<Rightarrow> 'w RPCTestGeneric"
  allTests :: "test_var list"

text \<open>
  Before \<^verbatim>\<open>setupTests\<close> runs, each of the 25 variables holds the zero value of
  \<^verbatim>\<open>RPCTestGeneric\<close>, whose \<^verbatim>\<open>Validator\<close> is a nil function (a call of it panics), and
  \<^verbatim>\<open>allTests\<close> is empty. The two flags have the values given on the command line, by
  default \<^verbatim>\<open>codeQualityPrivateKey\<close> and the address of the test contract.
\<close>

definition zero_RPCTestGeneric :: "'w RPCTestGeneric" where
  "zero_RPCTestGeneric =
     \<lparr>Method = [], Args = [], Validator = (\<lambda>result w. (Inl NilFuncCall, w)), IsError = False\<rparr>"

definition codeQualityPrivateKey :: string where
  "codeQualityPrivateKey = ''42b6e34dc21598a807dc19d7784c71b2a7a01f6480dc6f58258f78e539f1a1fa''"

definition initial_globals :: "string \<Rightarrow> string \<Rightarrow> 'w globals" where
  "initial_globals privateKeyFlag contractAddressFlag =
     \<lparr>testPrivateHexKey = privateKeyFlag, testContractAddress = contractAddressFlag,
      testPrivateKey = None, testEthAddress = 0,
      test_vars = (\<lambda>x. zero_RPCTestGeneric), allTests = []\<rparr>"

text \<open>
  What the file takes from outside: the functions of the libraries (\<^verbatim>\<open>regexp\<close>, \<^verbatim>\<open>json\<close>,
  \<^verbatim>\<open>gojsonschema\<close>, \<^verbatim>\<open>strings\<close>, go-ethereum's \<^verbatim>\<open>crypto\<close>, \<^verbatim>\<open>common\<close> and \<^verbatim>\<open>rpc\<close>) and
  the three schemas of the package \<^verbatim>\<open>rpctypes\<close>. \<open>ethcrypto_PubkeyToAddress\<close> is applied to
  the private key and stands for \<^verbatim>\<open>PubkeyToAddress(privateKey.PublicKey)\<close>.
\<close>

record 'w env =
  regexp_MustCompile :: regexp_compile
  json_Marshal :: json_marshal
  gojsonschema_Validate :: schema_validate
  strings_ToLower :: "string \<Rightarrow> string"
  ethcrypto_HexToECDSA :: "string \<Rightarrow> ext_error + nat"
  ethcrypto_PubkeyToAddress :: "nat \<Rightarrow> 160 word"
  Address_String :: "160 word \<Rightarrow> string"
  rpc_DialContext :: "string \<Rightarrow> 'w \<Rightarrow> (ext_error + 'w rpc_client) \<times> 'w"
  RPCSchemaEthSyncing :: string
  RPCSchemaAccountList :: string
  RPCSchemaEthBlock :: string

text \<open>The composite literal \<^verbatim>\<open>RPCTestGeneric{...}\<close>: a panic in a field leaves no value.\<close>

definition RPCTestGeneric_lit ::
  "bool \<Rightarrow> string \<Rightarrow> gvalue list \<Rightarrow> panic + 'w validator \<Rightarrow> panic + 'w RPCTestGeneric" where
  "RPCTestGeneric_lit isError m args pv =
     (case pv of
        Inl p \<Rightarrow> Inl p
      | Inr v \<Rightarrow> Inr \<lparr>Method = m, Args = args, Validator = v, IsError = isError\<rparr>)"

text \<open>The slice expression \<^verbatim>\<open>s[2:]\<close> of a string.\<close>

definition slice_from_2 :: "string \<Rightarrow> panic + string" where
  "slice_from_2 s = (if length s < 2 then Inl SliceBoundsOutOfRange else Inr (drop 2 s))"

text \<open>
  The pattern \<^verbatim>\<open>^0x000000000000000000000000\<close> followed by the lower-case address without
  its first two characters and by \<^verbatim>\<open>$\<close>.
\<close>

definition storage_pattern :: "'w env \<Rightarrow> 'w globals \<Rightarrow> panic + string" where
  "storage_pattern e g =
     (case slice_from_2 (strings_ToLower e (Address_String e (testEthAddress g))) of
        Inl p \<Rightarrow> Inl p
      | Inr hexDigits \<Rightarrow> Inr (''^0x000000000000000000000000'' @ hexDigits @ ''$''))"

text \<open>The value that \<^verbatim>\<open>setupTests\<close> assigns to each variable.\<close>

fun new_test :: "'w env \<Rightarrow> 'w globals \<Rightarrow> test_var \<Rightarrow> panic + 'w RPCTestGeneric" where
  "new_test e g RPCTestNetVersion =
     RPCTestGeneric_lit False ''net_version'' []
       (ValidateRegexString (regexp_MustCompile e) (''^'' @ [CHR 0x5C] @ ''d*$''))"
| "new_test e g RPCTestWeb3ClientVersion =
     RPCTestGeneric_lit False ''web3_clientVersion'' []
       (ValidateRegexString (regexp_MustCompile e) ''^[[:print:]]*$'')"
| "new_test e g RPCTestWeb3SHA3 =
     RPCTestGeneric_lit False ''web3_sha3'' [GString ''0x68656c6c6f20776f726c64'']
       (ValidateRegexString (regexp_MustCompile e)
          ''0x47173285a8d7341e5e972fc677286384f802f8ef42a5ec5f03bbfa254cb01fad'')"
| "new_test e g RPCTestWeb3SHA3Error =
     RPCTestGeneric_lit True ''web3_sha3'' [GString ''68656c6c6f20776f726c64'']
       (ValidateError (regexp_MustCompile e) ''cannot unmarshal hex string without 0x prefix'')"
| "new_test e g RPCTestNetListening =
     RPCTestGeneric_lit False ''net_listening'' [] (Inr (ValidateExact (GBool True)))"
| "new_test e g RPCTestNetPeerCount =
     RPCTestGeneric_lit False ''net_peerCount'' []
       (ValidateRegexString (regexp_MustCompile e) ''^0x[[:xdigit:]]*$'')"
| "new_test e g RPCTestEthProtocolVersion =
     RPCTestGeneric_lit True ''eth_protocolVersion'' []
       (ValidateError (regexp_MustCompile e) ''method eth_protocolVersion does not exist'')"
| "new_test e g RPCTestEthSyncing =
     RPCTestGeneric_lit False ''eth_syncing'' []
       (Inr (ChainValidator
          [ValidateExact (GBool False),
           ValidateJSONSchema (json_Marshal e) (gojsonschema_Validate e) (RPCSchemaEthSyncing e)]))"
| "new_test e g RPCTestEthCoinbase =
     RPCTestGeneric_lit False ''eth_coinbase'' []
       (ValidateRegexString (regexp_MustCompile e) ''^0x[[:xdigit:]]{40}$'')"
| "new_test e g RPCTestEthChainID =
     RPCTestGeneric_lit False ''eth_chainId'' []
       (ValidateRegexString (regexp_MustCompile e) ''^0x[[:xdigit:]]{1,}$'')"
| "new_test e g RPCTestEthMining =
     RPCTestGeneric_lit False ''eth_mining'' []
       (Inr (ChainValidator [ValidateExact (GBool True), ValidateExact (GBool False)]))"
| "new_test e g RPCTestEthHashrate =
     RPCTestGeneric_lit False ''eth_hashrate'' []
       (ValidateRegexString (regexp_MustCompile e) ''^0x[[:xdigit:]]{1,}$'')"
| "new_test e g RPCTestEthGasPrice =
     RPCTestGeneric_lit False ''eth_gasPrice'' []
       (ValidateRegexString (regexp_MustCompile e) ''^0x[[:xdigit:]]{1,}$'')"
| "new_test e g RPCTestEthAccounts =
     RPCTestGeneric_lit False ''eth_accounts'' []
       (Inr (ValidateJSONSchema (json_Marshal e) (gojsonschema_Validate e) (RPCSchemaAccountList e)))"
| "new_test e g RPCTestEthBlockNumber =
     RPCTestGeneric_lit False ''eth_blockNumber'' []
       (ValidateRegexString (regexp_MustCompile e) ''^0x[[:xdigit:]]{1,}$'')"
| "new_test e g RPCTestEthGetBalanceLatest =
     RPCTestGeneric_lit False ''eth_getBalance''
       [GString (Address_String e (testEthAddress g)), GString ''latest'']
       (ValidateRegexString (regexp_MustCompile e) ''^0x[[:xdigit:]]{1,}$'')"
| "new_test e g RPCTestEthGetBalanceEarliest =
     RPCTestGeneric_lit False ''eth_getBalance''
       [GString (Address_String e (testEthAddress g)), GString ''earliest'']
       (ValidateRegexString (regexp_MustCompile e) ''^0x[[:xdigit:]]{1,}$'')"
| "new_test e g RPCTestEthGetBalancePending =
     RPCTestGeneric_lit False ''eth_getBalance''
       [GString (Address_String e (testEthAddress g)), GString ''pending'']
       (ValidateRegexString (regexp_MustCompile e) ''^0x[[:xdigit:]]{1,}$'')"
| "new_test e g RPCTestEthGetStorageAtLatest =
     RPCTestGeneric_lit False ''eth_getStorageAt''
       [GString (testContractAddress g), GString ''0x3'', GString ''latest'']
       (case storage_pattern e g of
          Inl p \<Rightarrow> Inl p
        | Inr regEx \<Rightarrow> ValidateRegexString (regexp_MustCompile e) regEx)"
| "new_test e g RPCTestEthGetStorageAtEarliest =
     RPCTestGeneric_lit False ''eth_getStorageAt''
       [GString (testContractAddress g), GString ''0x3'', GString ''earliest'']
       (ValidateRegexString (regexp_MustCompile e) ''^0x0{64}'')"
| "new_test e g RPCTestEthGetStorageAtPending =
     RPCTestGeneric_lit False ''eth_getStorageAt''
       [GString (testContractAddress g), GString ''0x3'', GString ''pending'']
       (case storage_pattern e g of
          Inl p \<Rightarrow> Inl p
        | Inr regEx \<Rightarrow> ValidateRegexString (regexp_MustCompile e) regEx)"
| "new_test e g RPCTestEthGetTransactionCountAtLatest =
     RPCTestGeneric_lit False ''eth_getTransactionCount''
       [GString (Address_String e (testEthAddress g)), GString ''latest'']
       (ValidateRegexString (regexp_MustCompile e) ''^0x[[:xdigit:]]{1,}$'')"
| "new_test e g RPCTestEthGetTransactionCountAtEarliest =
     RPCTestGeneric_lit False ''eth_getTransactionCount''
       [GString (Address_String e (testEthAddress g)), GString ''earliest'']
       (ValidateRegexString (regexp_MustCompile e) ''^0x0$'')"
| "new_test e g RPCTestEthGetTransactionCountAtPending =
     RPCTestGeneric_lit False ''eth_getTransactionCount''
       [GString (Address_String e (testEthAddress g)), GString ''pending'']
       (ValidateRegexString (regexp_MustCompile e) ''^0x[[:xdigit:]]{1,}$'')"
| "new_test e g RPCTestEthBlockByNumber =
     RPCTestGeneric_lit False ''eth_getBlockByNumber'' [GString ''0x0'', GBool True]
       (Inr (ValidateJSONSchema (json_Marshal e) (gojsonschema_Validate e) (RPCSchemaEthBlock e)))"

text \<open>
  \<^verbatim>\<open>setupTests\<close> is a sequence of 25 pairs of statements, one pair for each variable in
  the order of \<open>setup_order\<close>: the variable is assigned its new value, and a pointer to
  the variable is appended to \<^verbatim>\<open>allTests\<close>.
\<close>

definition setup_order :: "test_var list" where
  "setup_order =
     [RPCTestNetVersion, RPCTestWeb3ClientVersion, RPCTestWeb3SHA3, RPCTestWeb3SHA3Error,
      RPCTestNetListening, RPCTestNetPeerCount, RPCTestEthProtocolVersion, RPCTestEthSyncing,
      RPCTestEthCoinbase, RPCTestEthChainID, RPCTestEthMining, RPCTestEthHashrate,
      RPCTestEthGasPrice, RPCTestEthAccounts, RPCTestEthBlockNumber,
      RPCTestEthGetBalanceLatest, RPCTestEthGetBalanceEarliest, RPCTestEthGetBalancePending,
      RPCTestEthGetStorageAtLatest, RPCTestEthGetStorageAtEarliest, RPCTestEthGetStorageAtPending,
      RPCTestEthGetTransactionCountAtLatest, RPCTestEthGetTransactionCountAtEarliest,
      RPCTestEthGetTransactionCountAtPending, RPCTestEthBlockByNumber]"

fun setup_steps :: "'w env \<Rightarrow> test_var list \<Rightarrow> 'w globals \<Rightarrow> panic + 'w globals" where
  "setup_steps e [] g = Inr g"
| "setup_steps e (x # xs) g =
     (case new_test e g x of
        Inl p \<Rightarrow> Inl p
      | Inr t \<Rightarrow>
          setup_steps e xs (g\<lparr>test_vars := (test_vars g)(x := t), allTests := allTests g @ [x]\<rparr>))"

definition setupTests :: "'w env \<Rightarrow> 'w globals \<Rightarrow> panic + 'w globals" where
  "setupTests e g = setup_steps e setup_order g"

section \<open>The command\<close>

definition RPCFuzzCmd_Args ::
  "'w env \<Rightarrow> string list \<Rightarrow> 'w globals \<Rightarrow> go_error option \<times> log_event list \<times> 'w globals" where
  "RPCFuzzCmd_Args e args g =
     (if length args \<noteq> 1 then
        (Some (Errorf ''Expected 1 argument, but got %d'' [GInt (of_nat (length args))]), [], g)
      else
        (case ethcrypto_HexToECDSA e (testPrivateHexKey g) of
           Inl err \<Rightarrow>
             (Some (LibError err),
              [\<lparr>ev_level = ErrorLevel, ev_err = Some (LibError err), ev_str = [],
                ev_msg = ''Couldn't process the hex private key''\<rparr>],
              g)
         | Inr privateKey \<Rightarrow>
             (let ethAddress = ethcrypto_PubkeyToAddress e privateKey in
              (None,
               [\<lparr>ev_level = InfoLevel, ev_err = None,
                 ev_str = [(''ethAddress'', Address_String e ethAddress)],
                 ev_msg = ''Loaded private key''\<rparr>],
               g\<lparr>testPrivateKey := Some privateKey, testEthAddress := ethAddress\<rparr>))))"

definition RPCFuzzCmd_RunE ::
  "'w env \<Rightarrow> string list \<Rightarrow> 'w globals \<Rightarrow> 'w \<Rightarrow>
     (panic + go_error option) \<times> log_event list \<times> 'w globals \<times> 'w" where
  "RPCFuzzCmd_RunE e args g w =
     (case args of
        [] \<Rightarrow> (Inl IndexOutOfRange, [], g, w)
      | arg0 # _ \<Rightarrow>
          (case rpc_DialContext e arg0 w of
             (Inl err, w1) \<Rightarrow> (Inr (Some (LibError err)), [], g, w1)
           | (Inr rpcClient, w1) \<Rightarrow>
               (let setup = \<lparr>ev_level = TraceLevel, ev_err = None, ev_str = [],
                              ev_msg = ''Doing test setup''\<rparr>
                in case setupTests e g of
                  Inl p \<Rightarrow> (Inl p, [setup], g, w1)
                | Inr g1 \<Rightarrow>
                    (case run_tests rpcClient (map (test_vars g1) (allTests g1)) w1 of
                       (Some p, evs, w2) \<Rightarrow> (Inl p, setup # evs, g1, w2)
                     | (None, evs, w2) \<Rightarrow> (Inr None, setup # evs, g1, w2)))))"

text \<open>
  The library \<^verbatim>\<open>cobra\<close> runs a command in this order: it calls \<^verbatim>\<open>Args\<close> on the positional
  arguments and returns its error if there is one; otherwise it calls \<^verbatim>\<open>RunE\<close> on the
  same arguments and returns what it returns.
\<close>

definition RPCFuzzCmd_execute ::
  "'w env \<Rightarrow> string list \<Rightarrow> 'w globals \<Rightarrow> 'w \<Rightarrow>
     (panic + go_error option) \<times> log_event list \<times> 'w globals \<times> 'w" where
  "RPCFuzzCmd_execute e args g w =
     (case RPCFuzzCmd_Args e args g of
        (Some err, evs, g1) \<Rightarrow> (Inr (Some err), evs, g1, w)
      | (None, evs, g1) \<Rightarrow>
          (case RPCFuzzCmd_RunE e args g1 w of
             (r, evs', g2, w') \<Rightarrow> (r, evs @ evs', g2, w')))"

text \<open>
  The words of the specification about the engine. A validator is stateless when it
  leaves the state alone and its result does not depend on it; it returns when it never
  panics. The verdict of a case is a function of the case and of the outcome of its call
  alone: a call failure when the call returned an error that the case does not expect;
  otherwise the case's validator decides, on the error (\<^verbatim>\<open>nil\<close> when there is none) if
  the case expects an error and on the decoded result if not (the verdict is read for
  validators that return, which give an error or \<^verbatim>\<open>nil\<close>). \<open>call_outcomes\<close> are the
  outcomes of the calls when each case is called once, in the order of the registry.
\<close>

definition stateless :: "'w validator \<Rightarrow> bool" where
  "stateless v \<longleftrightarrow> (\<forall>result w. snd (v result w) = w) \<and> (\<forall>result w w'. fst (v result w) = fst (v result w'))"

definition returns :: "'w validator \<Rightarrow> bool" where
  "returns v \<longleftrightarrow> (\<forall>result w. \<not> isl (fst (v result w)))"

datatype verdict = Success | CallFailure ext_error | ValidationFailure go_error

definition test_verdict :: "'w RPCTestGeneric \<Rightarrow> call_outcome \<Rightarrow> 'w \<Rightarrow> verdict" where
  "test_verdict t outcome w =
     (case outcome of
        (result, Some e) \<Rightarrow>
          if \<not> IsError t then CallFailure e
          else (case fst (Validator t (GError e) w) of
                  Inr (Some d) \<Rightarrow> ValidationFailure d
                | _ \<Rightarrow> Success)
      | (result, None) \<Rightarrow>
          (case fst (Validator t (if IsError t then GNil else result) w) of
             Inr (Some d) \<Rightarrow> ValidationFailure d
           | _ \<Rightarrow> Success))"

fun verdict_event :: "string \<Rightarrow> verdict \<Rightarrow> log_event" where
  "verdict_event m Success = validated_event m"
| "verdict_event m (CallFailure e) = call_failed_event m (Some e)"
| "verdict_event m (ValidationFailure d) = validation_failed_event m (Some d)"

fun call_outcomes ::
  "'w rpc_client \<Rightarrow> 'w RPCTestGeneric list \<Rightarrow> 'w \<Rightarrow> call_outcome list \<times> 'w" where
  "call_outcomes CallContext [] w = ([], w)"
| "call_outcomes CallContext (t # ts) w =
     (case CallContext (Method t) (Args t) w of
        (outcome, w1) \<Rightarrow>
          (case call_outcomes CallContext ts w1 of (outcomes, w2) \<Rightarrow> (outcome # outcomes, w2)))"

text \<open>
  A test double of the node: its state is the list of the outcomes of the calls to
  come, and each call takes the first.
\<close>

fun replay :: "(call_outcome list) rpc_client" where
  "replay m args [] = ((GNil, Some (ExtError 0 ''EOF'')), [])"
| "replay m args (outcome # outcomes) = (outcome, outcomes)"

text \<open>
  The words of the specification about exact match. A comparable primitive value is a
  \<^verbatim>\<open>bool\<close>, an \<^verbatim>\<open>int\<close>, a \<^verbatim>\<open>float64\<close> or a \<^verbatim>\<open>string\<close>; a structured value is a
  slice or a map. Two values are strictly equal when they have the same dynamic type
  and the same value, two \<^verbatim>\<open>float64\<close> by the IEEE comparison (a NaN equals nothing, the
  two zeros are equal).
\<close>

definition comparable_primitive :: "gvalue \<Rightarrow> bool" where
  "comparable_primitive v =
     (case v of GBool _ \<Rightarrow> True | GInt _ \<Rightarrow> True | GFloat64 _ \<Rightarrow> True | GString _ \<Rightarrow> True | _ \<Rightarrow> False)"

definition structured :: "gvalue \<Rightarrow> bool" where
  "structured v = (case v of GSlice _ \<Rightarrow> True | GMap _ \<Rightarrow> True | _ \<Rightarrow> False)"

definition strictly_equal :: "gvalue \<Rightarrow> gvalue \<Rightarrow> bool" where
  "strictly_equal expected result =
     (case expected of
        GFloat64 a \<Rightarrow> (case result of GFloat64 b \<Rightarrow> float64_eq a b | _ \<Rightarrow> False)
      | _ \<Rightarrow> result = expected)"

text \<open>
  Test doubles of the libraries. \<open>literal_regexp\<close> stands for \<^verbatim>\<open>regexp\<close> on the patterns
  without metacharacters, which match where they occur in the string as they are
  written. \<open>bool_Marshal\<close> and \<open>bool_schema\<close> stand for \<^verbatim>\<open>json\<close> and \<^verbatim>\<open>gojsonschema\<close> on
  booleans and strings of letters, and on the one schema that asks for a boolean.
\<close>

definition literal_match :: "string \<Rightarrow> regexp" where
  "literal_match p = (\<lambda>s. list_ex (\<lambda>i. take (length p) (drop i s) = p) [0..<Suc (length s)])"

definition literal_regexp :: regexp_compile where
  "literal_regexp p = Some (literal_match p)"

definition bool_Marshal :: json_marshal where
  "bool_Marshal v =
     (case v of
        GBool b \<Rightarrow> Inr (if b then ''true'' else ''false'')
      | GString s \<Rightarrow> Inr ([CHR 0x22] @ s @ [CHR 0x22])
      | _ \<Rightarrow> Inl (ExtError 1 ''json: unsupported value''))"

definition bool_schema :: schema_validate where
  "bool_schema schema doc =
     (if schema = ''boolean'' then
        (if doc = ''true'' \<or> doc = ''false'' then Inr \<lparr>Valid = True, Errors = []\<rparr>
         else Inr \<lparr>Valid = False, Errors = [''(root): Invalid type. Expected: boolean'', ''(root): Must validate the schema'']\<rparr>)
      else Inl (ExtError 4 ''invalid character looking for beginning of value''))"

text \<open>
  A test double of the outside for the whole command: the libraries above, the key and
  the address of the command's help text, lower case on ASCII letters, and a node at
  \<^verbatim>\<open>http://localhost:8545\<close> that replays the outcomes.
\<close>

definition ascii_ToLower :: "string \<Rightarrow> string" where
  "ascii_ToLower s =
     map (\<lambda>c. if 65 \<le> (of_char c :: nat) \<and> (of_char c :: nat) \<le> 90
               then char_of ((of_char c :: nat) + 32) else c) s"

definition env_double :: "(call_outcome list) env" where
  "env_double =
     \<lparr>regexp_MustCompile = literal_regexp,
      json_Marshal = bool_Marshal,
      gojsonschema_Validate = bool_schema,
      strings_ToLower = ascii_ToLower,
      ethcrypto_HexToECDSA =
        (\<lambda>s. if s = codeQualityPrivateKey
              then Inr 0x42b6e34dc21598a807dc19d7784c71b2a7a01f6480dc6f58258f78e539f1a1fa
              else Inl (ExtError 2 ''invalid hex character in private key'')),
      ethcrypto_PubkeyToAddress = (\<lambda>k. 0x85dA99c8a7C2C95964c8EfD687E95E632Fc533D6),
      Address_String = (\<lambda>a. ''0x85dA99c8a7C2C95964c8EfD687E95E632Fc533D6''),
      rpc_DialContext =
        (\<lambda>url w. if url = ''http://localhost:8545'' then (Inr replay, w)
                  else (Inl (ExtError 3 ''dial tcp: connection refused''), w)),
      RPCSchemaEthSyncing = ''boolean'',
      RPCSchemaAccountList = ''boolean'',
      RPCSchemaEthBlock = ''boolean''\<rparr>"

definition globals_double :: "(call_outcome list) globals" where
  "globals_double = initial_globals codeQualityPrivateKey ''0x6fda56c57b0acadb96ed5624ac500c0429d59429''"

text \<open>A test double: a validator that counts its calls and returns a fixed result.\<close>

definition counting :: "(panic + go_error option) \<Rightarrow> nat validator" where
  "counting res = (\<lambda>result n. (res, Suc n))"

section \<open>The chain of validators\<close>

lemma fails_through_Cons:
  "v result w = (Inr (Some err), w') \<Longrightarrow> fails_through (v # vs) result w = fails_through vs result w'"
  by simp

lemma ChainValidator_append_failed:
  "fails_through pre result w = Some w1 \<Longrightarrow>
   ChainValidator (pre @ vs) result w = ChainValidator vs result w1"
proof (induction pre arbitrary: w)
  case Nil
  then show ?case by simp
next
  case (Cons v pre)
  obtain res w' where step: "v result w = (res, w')"
    by (cases "v result w")
  with Cons.prems obtain err where res: "res = Inr (Some err)"
    by (cases res) (auto split: option.splits)
  from Cons.prems step res have "fails_through pre result w' = Some w1"
    by simp
  then have "ChainValidator (pre @ vs) result w' = ChainValidator vs result w1"
    by (rule Cons.IH)
  with step res show ?case by simp
qed

text \<open>
  C2. The chain applies its validators in the given order and returns success as soon
  as one of them succeeds: when every validator before \<open>v\<close> has returned an error and
  \<open>v\<close> returns \<^verbatim>\<open>nil\<close>, the chain returns \<^verbatim>\<open>nil\<close> in the state \<open>v\<close> left. The validators
  after \<open>v\<close> are not called: whatever they are, also ones that would panic or change the
  state, the result and the state are the same.
\<close>

theorem ChainValidator_first_success:
  assumes "fails_through pre result w = Some w1"
    and "v result w1 = (Inr None, w2)"
  shows "ChainValidator (pre @ v # post) result w = (Inr None, w2)"
proof -
  have "ChainValidator (pre @ v # post) result w = ChainValidator (v # post) result w1"
    using assms(1) by (rule ChainValidator_append_failed)
  also have "\<dots> = (Inr None, w2)"
    using assms(2) by simp
  finally show ?thesis .
qed

theorem ChainValidator_first_success_witness:
  "fails_through [counting (Inr (Some (Errorf ''no'' [])))] (GBool False) 0 = Some 1
   \<and> counting (Inr None) (GBool False) 1 = (Inr None, 2)
   \<and> ChainValidator
        ([counting (Inr (Some (Errorf ''no'' [])))] @ counting (Inr None) # [counting (Inl UncomparableType)])
        (GBool False) 0 = (Inr None, 2)"
proof -
  have a: "fails_through [counting (Inr (Some (Errorf ''no'' [])))] (GBool False) 0 = Some 1"
    by (simp add: counting_def)
  have b: "counting (Inr None) (GBool False) 1 = (Inr None, 2)"
    by (simp add: counting_def)
  from ChainValidator_first_success
         [where pre = "[counting (Inr (Some (Errorf ''no'' [])))]"
            and v = "counting (Inr None)" and result = "GBool False" and w = 0
            and ?w1.0 = 1 and ?w2.0 = 2
            and post = "[counting (Inl UncomparableType)]", OF a b] a b
  show ?thesis by blast
qed

text \<open>
  C3. When every validator of the chain returns an error on the observed value, the
  chain returns the error \<^verbatim>\<open>All Validation failed\<close>, which has no argument: the errors
  of the validators are dropped.
\<close>

theorem ChainValidator_all_failed:
  assumes "fails_through vs result w = Some w'"
  shows "ChainValidator vs result w = (Inr (Some (Errorf ''All Validation failed'' [])), w')"
proof -
  have "ChainValidator (vs @ []) result w = ChainValidator [] result w'"
    using assms by (rule ChainValidator_append_failed)
  then show ?thesis by simp
qed

theorem ChainValidator_all_failed_witness:
  "fails_through [ValidateExact (GBool True), ValidateExact (GBool False)] (GString ''0x1'') () = Some ()
   \<and> ChainValidator [ValidateExact (GBool True), ValidateExact (GBool False)] (GString ''0x1'') ()
       = (Inr (Some (Errorf ''All Validation failed'' [])), ())"
proof -
  have a: "fails_through [ValidateExact (GBool True), ValidateExact (GBool False)] (GString ''0x1'') () = Some ()"
    by (simp add: ValidateExact_def)
  from ChainValidator_all_failed
         [where vs = "[ValidateExact (GBool True), ValidateExact (GBool False)]"
            and result = "GString ''0x1''" and w = "()" and w' = "()", OF a] a
  show ?thesis by blast
qed

text \<open>
  C9. The chain of no validator is accepted, and it returns the error
  \<^verbatim>\<open>All Validation failed\<close> on every observed value, without a panic and without a change
  of the state.
\<close>

theorem ChainValidator_empty:
  "ChainValidator [] result w = (Inr (Some (Errorf ''All Validation failed'' [])), w)"
  by simp


section \<open>The elementary validators\<close>

text \<open>
  C4. For a comparable primitive expected value, the validator of \<open>ValidateExact\<close>
  returns \<^verbatim>\<open>nil\<close> exactly when the observed value is strictly equal to it; otherwise it
  returns the error \<^verbatim>\<open>Expected %v and got %v\<close> of the two values. A structured observed
  value has another dynamic type than the expected one, so it is refused in that way: it
  is neither converted nor does the comparison panic.
\<close>

theorem ValidateExact_comparable:
  assumes "comparable_primitive expected"
  shows "(ValidateExact expected result w = (Inr None, w) \<longleftrightarrow> strictly_equal expected result)
    \<and> (\<not> strictly_equal expected result \<longrightarrow>
         ValidateExact expected result w =
           (Inr (Some (Errorf ''Expected %v and got %v'' [expected, result])), w))
    \<and> (structured result \<longrightarrow>
         ValidateExact expected result w =
           (Inr (Some (Errorf ''Expected %v and got %v'' [expected, result])), w))"
  using assms
  by (cases expected; cases result)
     (simp_all add: comparable_primitive_def structured_def strictly_equal_def ValidateExact_def eq_commute)

theorem ValidateExact_comparable_witness:
  "comparable_primitive (GBool True)
   \<and> structured (GMap [(''startingBlock'', GString ''0x0'')])
   \<and> \<not> strictly_equal (GBool True) (GMap [(''startingBlock'', GString ''0x0'')])
   \<and> ValidateExact (GBool True) (GMap [(''startingBlock'', GString ''0x0'')]) ()
       = (Inr (Some (Errorf ''Expected %v and got %v''
                      [GBool True, GMap [(''startingBlock'', GString ''0x0'')]])), ())
   \<and> ValidateExact (GBool True) (GBool True) () = (Inr None, ())"
proof -
  have a: "comparable_primitive (GBool True)"
    by (simp add: comparable_primitive_def)
  from ValidateExact_comparable
         [where expected = "GBool True" and result = "GMap [(''startingBlock'', GString ''0x0'')]"
            and w = "()", OF a]
       ValidateExact_comparable
         [where expected = "GBool True" and result = "GBool True" and w = "()", OF a]
       a
  show ?thesis
    by (simp add: structured_def strictly_equal_def)
qed

text \<open>
  C5. For a pattern that compiles, \<open>ValidateRegexString\<close> returns a validator; it returns
  \<^verbatim>\<open>nil\<close> exactly on the strings that the compiled expression matches. On a string
  without a match it returns the error \<^verbatim>\<open>The regex %s failed to match result %s\<close> of the
  pattern and the string, and on a value that is not a string the error
  \<^verbatim>\<open>Invalid result type. Expected string but got %T\<close> of the value.
\<close>

theorem ValidateRegexString_string_match:
  assumes "MustCompile regEx = Some r"
  shows "\<exists>v. ValidateRegexString MustCompile regEx = Inr v
    \<and> (\<forall>result (w :: 'w). v result w = (Inr None, w) \<longleftrightarrow> (\<exists>s. result = GString s \<and> r s))
    \<and> (\<forall>s (w :: 'w). \<not> r s \<longrightarrow>
          v (GString s) w =
            (Inr (Some (Errorf ''The regex %s failed to match result %s'' [GString regEx, GString s])), w))
    \<and> (\<forall>result (w :: 'w). (\<forall>s. result \<noteq> GString s) \<longrightarrow>
          v result w =
            (Inr (Some (Errorf ''Invalid result type. Expected string but got %T'' [result])), w))"
proof -
  let ?v = "\<lambda>result (w :: 'w).
          ((case result of
             GString resultStr \<Rightarrow>
               if \<not> r resultStr then
                 Inr (Some (Errorf ''The regex %s failed to match result %s'' [GString regEx, GString resultStr]))
               else Inr None
           | _ \<Rightarrow> Inr (Some (Errorf ''Invalid result type. Expected string but got %T'' [result]))), w)"
  have "ValidateRegexString MustCompile regEx = Inr ?v"
    using assms by (simp add: ValidateRegexString_def)
  moreover have "\<forall>result w. ?v result w = (Inr None, w) \<longleftrightarrow> (\<exists>s. result = GString s \<and> r s)"
    by (auto split: gvalue.splits)
  moreover have "\<forall>s w. \<not> r s \<longrightarrow>
          ?v (GString s) w =
            (Inr (Some (Errorf ''The regex %s failed to match result %s'' [GString regEx, GString s])), w)"
    by simp
  moreover have "\<forall>result w. (\<forall>s. result \<noteq> GString s) \<longrightarrow>
          ?v result w =
            (Inr (Some (Errorf ''Invalid result type. Expected string but got %T'' [result])), w)"
    by (auto split: gvalue.splits)
  ultimately show ?thesis by blast
qed


theorem ValidateRegexString_string_match_witness:
  "literal_regexp ''0x'' = Some (literal_match ''0x'')
   \<and> literal_match ''0x'' ''10x1a'' \<and> \<not> literal_match ''0x'' ''1a''
   \<and> (\<exists>v. ValidateRegexString literal_regexp ''0x'' = Inr v
        \<and> v (GString ''10x1a'') () = (Inr None, ())
        \<and> v (GString ''1a'') () =
            (Inr (Some (Errorf ''The regex %s failed to match result %s'' [GString ''0x'', GString ''1a''])), ())
        \<and> v (GInt 42) () =
            (Inr (Some (Errorf ''Invalid result type. Expected string but got %T'' [GInt 42])), ()))"
proof -
  have a: "literal_regexp ''0x'' = Some (literal_match ''0x'')"
    by (simp add: literal_regexp_def)
  have m1: "literal_match ''0x'' ''10x1a''"
    by code_simp
  have m2: "\<not> literal_match ''0x'' ''1a''"
    by code_simp
  from ValidateRegexString_string_match
         [where ?'w = unit and MustCompile = literal_regexp and regEx = "''0x''"
            and r = "literal_match ''0x''", OF a]
  obtain v :: "unit validator" where v: "ValidateRegexString literal_regexp ''0x'' = Inr v"
    and ok: "\<forall>result w. v result w = (Inr None, w) \<longleftrightarrow> (\<exists>s. result = GString s \<and> literal_match ''0x'' s)"
    and nomatch: "\<forall>s w. \<not> literal_match ''0x'' s \<longrightarrow>
          v (GString s) w =
            (Inr (Some (Errorf ''The regex %s failed to match result %s'' [GString ''0x'', GString s])), w)"
    and wrongtype: "\<forall>result w. (\<forall>s. result \<noteq> GString s) \<longrightarrow>
          v result w =
            (Inr (Some (Errorf ''Invalid result type. Expected string but got %T'' [result])), w)"
    by blast
  from ok m1 have r1: "v (GString ''10x1a'') () = (Inr None, ())"
    by blast
  from nomatch m2 have r2: "v (GString ''1a'') () =
            (Inr (Some (Errorf ''The regex %s failed to match result %s'' [GString ''0x'', GString ''1a''])), ())"
    by blast
  from wrongtype have r3: "v (GInt 42) () =
            (Inr (Some (Errorf ''Invalid result type. Expected string but got %T'' [GInt 42])), ())"
    by simp
  from a m1 m2 v r1 r2 r3 show ?thesis by blast
qed

lemma foldl_descriptions:
  "foldl (\<lambda>errStr desc. errStr @ desc @ [CHR 0x0A]) acc ds
     = acc @ concat (map (\<lambda>desc. desc @ [CHR 0x0A]) ds)"
  by (induction ds arbitrary: acc) simp_all

text \<open>
  C6. The validator of \<open>ValidateJSONSchema\<close> serializes the observed value and validates
  the text it gets against the schema. It returns \<^verbatim>\<open>nil\<close> exactly when the value is
  serialized, the validation runs and its result is valid. When the result is not valid
  the error \<^verbatim>\<open>The json document is not valid: %s\<close> holds every description, each followed
  by a line feed, in order. When the value cannot be serialized, or the validation cannot
  run, the validator returns an error that wraps the library's one: it does not panic.
\<close>

theorem ValidateJSONSchema_schema_match:
  "(ValidateJSONSchema Marshal SchemaValidate schema result w = (Inr None, w) \<longleftrightarrow>
      (\<exists>jsonText res. Marshal result = Inr jsonText \<and> SchemaValidate schema jsonText = Inr res \<and> Valid res))
   \<and> (\<forall>jsonText res. Marshal result = Inr jsonText \<longrightarrow> SchemaValidate schema jsonText = Inr res \<longrightarrow>
        \<not> Valid res \<longrightarrow>
        ValidateJSONSchema Marshal SchemaValidate schema result w =
          (Inr (Some (Errorf ''The json document is not valid: %s''
                  [GString (concat (map (\<lambda>desc. desc @ [CHR 0x0A]) (Errors res)))])), w))
   \<and> (\<forall>err. Marshal result = Inl err \<longrightarrow>
        ValidateJSONSchema Marshal SchemaValidate schema result w =
          (Inr (Some (Errorf ''Unable to marshal result back to json for validation: %w'' [GError err])), w))
   \<and> (\<forall>jsonText err. Marshal result = Inr jsonText \<longrightarrow> SchemaValidate schema jsonText = Inl err \<longrightarrow>
        ValidateJSONSchema Marshal SchemaValidate schema result w =
          (Inr (Some (Errorf ''Unable to run json validation: %w'' [GError err])), w))"
  by (auto simp add: ValidateJSONSchema_def foldl_descriptions split: sum.splits)

theorem ValidateJSONSchema_schema_match_witness:
  "ValidateJSONSchema bool_Marshal bool_schema ''boolean'' (GBool False) () = (Inr None, ())
   \<and> ValidateJSONSchema bool_Marshal bool_schema ''boolean'' (GString ''false'') () =
       (Inr (Some (Errorf ''The json document is not valid: %s''
          [GString (''(root): Invalid type. Expected: boolean'' @ [CHR 0x0A]
                    @ ''(root): Must validate the schema'' @ [CHR 0x0A])])), ())
   \<and> ValidateJSONSchema bool_Marshal bool_schema ''boolean'' GNil () =
       (Inr (Some (Errorf ''Unable to marshal result back to json for validation: %w''
          [GError (ExtError 1 ''json: unsupported value'')])), ())
   \<and> ValidateJSONSchema bool_Marshal bool_schema ''{'' (GBool True) () =
       (Inr (Some (Errorf ''Unable to run json validation: %w''
          [GError (ExtError 4 ''invalid character looking for beginning of value'')])), ())"
proof -
  have ok: "bool_Marshal (GBool False) = Inr ''false''"
    "bool_schema ''boolean'' ''false'' = Inr \<lparr>Valid = True, Errors = []\<rparr>"
    by (simp_all add: bool_Marshal_def bool_schema_def)
  have bad: "bool_Marshal (GString ''false'') = Inr ([CHR 0x22] @ ''false'' @ [CHR 0x22])"
    "bool_schema ''boolean'' ([CHR 0x22] @ ''false'' @ [CHR 0x22]) =
       Inr \<lparr>Valid = False, Errors = [''(root): Invalid type. Expected: boolean'', ''(root): Must validate the schema'']\<rparr>"
    by (simp_all add: bool_Marshal_def bool_schema_def)
  have unser: "bool_Marshal GNil = Inl (ExtError 1 ''json: unsupported value'')"
    by (simp add: bool_Marshal_def)
  have norun: "bool_Marshal (GBool True) = Inr ''true''"
    "bool_schema ''{'' ''true'' = Inl (ExtError 4 ''invalid character looking for beginning of value'')"
    by (simp_all add: bool_Marshal_def bool_schema_def)
  have 1: "ValidateJSONSchema bool_Marshal bool_schema ''boolean'' (GBool False) () = (Inr None, ())"
    using ValidateJSONSchema_schema_match
            [where Marshal = bool_Marshal and SchemaValidate = bool_schema and schema = "''boolean''"
               and result = "GBool False" and w = "()"] ok
    by simp
  have 2: "ValidateJSONSchema bool_Marshal bool_schema ''boolean'' (GString ''false'') () =
       (Inr (Some (Errorf ''The json document is not valid: %s''
          [GString (''(root): Invalid type. Expected: boolean'' @ [CHR 0x0A]
                    @ ''(root): Must validate the schema'' @ [CHR 0x0A])])), ())"
    using ValidateJSONSchema_schema_match
            [where Marshal = bool_Marshal and SchemaValidate = bool_schema and schema = "''boolean''"
               and result = "GString ''false''" and w = "()"] bad
    by simp
  have 3: "ValidateJSONSchema bool_Marshal bool_schema ''boolean'' GNil () =
       (Inr (Some (Errorf ''Unable to marshal result back to json for validation: %w''
          [GError (ExtError 1 ''json: unsupported value'')])), ())"
    using ValidateJSONSchema_schema_match
            [where Marshal = bool_Marshal and SchemaValidate = bool_schema and schema = "''boolean''"
               and result = "GNil" and w = "()"] unser
    by simp
  have 4: "ValidateJSONSchema bool_Marshal bool_schema ''{'' (GBool True) () =
       (Inr (Some (Errorf ''Unable to run json validation: %w''
          [GError (ExtError 4 ''invalid character looking for beginning of value'')])), ())"
    using ValidateJSONSchema_schema_match
            [where Marshal = bool_Marshal and SchemaValidate = bool_schema and schema = "''{''"
               and result = "GBool True" and w = "()"] norun
    by simp
  from 1 2 3 4 show ?thesis by blast
qed


section \<open>Validators that return and leave the state alone\<close>

lemma stateless_ValidateExact: "stateless (ValidateExact expected)"
  by (simp add: stateless_def ValidateExact_def)

lemma returns_ValidateExact_bool: "returns (ValidateExact (GBool b))"
  unfolding returns_def ValidateExact_def
proof (intro allI)
  fix result :: gvalue and w :: 'a
  show "\<not> isl (fst (case iface_eq (GBool b) result of
        Inl p \<Rightarrow> Inl p
      | Inr equal \<Rightarrow>
          if \<not> equal then Inr (Some (Errorf ''Expected %v and got %v'' [GBool b, result]))
          else Inr None, w))"
    by (cases result) simp_all
qed

lemma stateless_ValidateJSONSchema: "stateless (ValidateJSONSchema Marshal SchemaValidate schema)"
  by (simp add: stateless_def ValidateJSONSchema_def)

lemma returns_ValidateJSONSchema: "returns (ValidateJSONSchema Marshal SchemaValidate schema)"
  by (simp add: returns_def ValidateJSONSchema_def split: sum.splits)

lemma stateless_ValidateRegexString:
  "ValidateRegexString MustCompile regEx = Inr v \<Longrightarrow> stateless v"
  by (auto simp add: stateless_def ValidateRegexString_def split: option.splits)

lemma returns_ValidateRegexString:
  "ValidateRegexString MustCompile regEx = Inr v \<Longrightarrow> returns v"
  by (auto simp add: returns_def ValidateRegexString_def split: option.splits gvalue.splits if_splits)

lemma stateless_ValidateError:
  "ValidateError MustCompile regEx = Inr v \<Longrightarrow> stateless v"
  by (auto simp add: stateless_def ValidateError_def split: option.splits)

lemma returns_ValidateError:
  "ValidateError MustCompile regEx = Inr v \<Longrightarrow> returns v"
  by (auto simp add: returns_def ValidateError_def split: option.splits gvalue.splits if_splits)

lemma returns_ChainValidator:
  assumes "\<forall>v\<in>set vs. returns v"
  shows "returns (ChainValidator vs)"
proof -
  have "\<not> isl (fst (ChainValidator vs result w))" for result w
    using assms
  proof (induction vs arbitrary: w)
    case Nil
    then show ?case by simp
  next
    case (Cons v vs)
    obtain res w' where step: "v result w = (res, w')"
      by (cases "v result w")
    from Cons.prems have "returns v" by simp
    with step obtain d where res: "res = Inr d"
      unfolding returns_def by (metis fst_conv isl_def sum.exhaust)
    from Cons.prems have "\<forall>v\<in>set vs. returns v" by simp
    then have "\<not> isl (fst (ChainValidator vs result w'))"
      by (rule Cons.IH)
    with step res show ?case
      by (cases d) simp_all
  qed
  then show ?thesis
    by (simp add: returns_def)
qed

lemma ChainValidator_stateless_step:
  assumes "\<forall>v\<in>set vs. stateless v"
  shows "snd (ChainValidator vs result w) = w
    \<and> fst (ChainValidator vs result w) = fst (ChainValidator vs result w')"
  using assms
proof (induction vs)
  case Nil
  then show ?case by simp
next
  case (Cons v vs)
  from Cons.prems have sv: "stateless v" by simp
  obtain res where step: "v result w = (res, w)"
    using sv unfolding stateless_def by (metis prod.collapse)
  have step': "v result w' = (res, w')"
    using sv step unfolding stateless_def by (metis fst_conv prod.collapse)
  from Cons.prems have "\<forall>v\<in>set vs. stateless v" by simp
  then have IH: "snd (ChainValidator vs result w) = w
    \<and> fst (ChainValidator vs result w) = fst (ChainValidator vs result w')"
    by (rule Cons.IH)
  show ?case
    using step step' IH by (cases res; simp split: option.splits)
qed


lemma stateless_ChainValidator:
  assumes "\<forall>v\<in>set vs. stateless v"
  shows "stateless (ChainValidator vs)"
  unfolding stateless_def
  using ChainValidator_stateless_step [OF assms] by blast

section \<open>One test case\<close>

lemma run_test_call:
  assumes "CallContext (Method t) (Args t) w = ((result, err), w1)"
  shows "run_test CallContext t w =
     (if err \<noteq> None \<and> \<not> IsError t then
        (None, [running_event (Method t), call_failed_event (Method t) err], w1)
      else
        (case Validator t (if IsError t then error_iface err else result) w1 of
           (Inl p, w2) \<Rightarrow> (Some p, [running_event (Method t)], w2)
         | (Inr None, w2) \<Rightarrow> (None, [running_event (Method t), validated_event (Method t)], w2)
         | (Inr (Some d), w2) \<Rightarrow>
             (None, [running_event (Method t), validation_failed_event (Method t) (Some d)], w2)))"
  using assms
  by (auto simp add: run_test_def GetMethod_def GetArgs_def ExpectError_def Validate_def
        split: prod.splits sum.splits option.splits)

lemma ValidateError_compiled:
  assumes "MustCompile pat = Some r"
  shows "ValidateError MustCompile pat = Inr (\<lambda>result w.
          ((case result of
             GError resultError \<Rightarrow>
               if \<not> r (Error_msg resultError) then
                 Inr (Some (Errorf ''The regex %s failed to match result %s''
                   [GString pat, GString (Error_msg resultError)]))
               else Inr None
           | _ \<Rightarrow> Inr (Some (Errorf ''Invalid result type. Expected error but got %T'' [result]))), w))"
  using assms by (simp add: ValidateError_def)

text \<open>
  C1, as the code has it. For a case that expects an error and whose validator is the
  one of \<open>ValidateError\<close> for a pattern: when the call returns an error whose message the
  pattern matches, the engine logs the success of the case. When the call returns no
  error, the engine calls the validator all the same, on the \<^verbatim>\<open>nil\<close> error; the
  validator returns \<^verbatim>\<open>Invalid result type. Expected error but got %T\<close>, and the engine
  logs a validation failure with that error.
\<close>

theorem expect_error_routing:
  assumes "IsError t"
    and "MustCompile pat = Some r"
    and "ValidateError MustCompile pat = Inr (Validator t)"
  shows "(CallContext (Method t) (Args t) w = ((result, Some e), w1) \<longrightarrow> r (Error_msg e) \<longrightarrow>
            run_test CallContext t w =
              (None, [running_event (Method t), validated_event (Method t)], w1))
    \<and> (CallContext (Method t) (Args t) w = ((result, None), w1) \<longrightarrow>
            run_test CallContext t w =
              (None,
               [running_event (Method t),
                validation_failed_event (Method t)
                  (Some (Errorf ''Invalid result type. Expected error but got %T'' [GNil]))],
               w1))"
proof -
  from assms(2,3) have v: "Validator t = (\<lambda>result w.
          ((case result of
             GError resultError \<Rightarrow>
               if \<not> r (Error_msg resultError) then
                 Inr (Some (Errorf ''The regex %s failed to match result %s''
                   [GString pat, GString (Error_msg resultError)]))
               else Inr None
           | _ \<Rightarrow> Inr (Some (Errorf ''Invalid result type. Expected error but got %T'' [result]))), w))"
    by (simp add: ValidateError_compiled)
  show ?thesis
    using assms(1) by (auto simp add: run_test_call v)
qed

theorem expect_error_routing_witness:
  "run_test replay
     \<lparr>Method = ''web3_sha3'', Args = [GString ''68656c6c6f20776f726c64''],
      Validator = projr (ValidateError literal_regexp ''without 0x prefix''),
      IsError = True\<rparr>
     [(GNil, Some (ExtError 7 ''hex string without 0x prefix into Go value''))]
   = (None, [running_event ''web3_sha3'', validated_event ''web3_sha3''], [])
   \<and> run_test replay
     \<lparr>Method = ''web3_sha3'', Args = [GString ''68656c6c6f20776f726c64''],
      Validator = projr (ValidateError literal_regexp ''without 0x prefix''),
      IsError = True\<rparr>
     [(GString ''0x4717'', None)]
   = (None,
      [running_event ''web3_sha3'',
       validation_failed_event ''web3_sha3''
         (Some (Errorf ''Invalid result type. Expected error but got %T'' [GNil]))],
      [])"
proof -
  let ?t = "\<lparr>Method = ''web3_sha3'', Args = [GString ''68656c6c6f20776f726c64''],
      Validator = projr (ValidateError literal_regexp ''without 0x prefix''),
      IsError = True\<rparr> :: (call_outcome list) RPCTestGeneric"
  have a: "IsError ?t"
    by simp
  have b: "literal_regexp ''without 0x prefix'' = Some (literal_match ''without 0x prefix'')"
    by (simp add: literal_regexp_def)
  have c: "ValidateError literal_regexp ''without 0x prefix'' = Inr (Validator ?t)"
    by (simp add: ValidateError_def literal_regexp_def)
  have m: "literal_match ''without 0x prefix''
             (Error_msg (ExtError 7 ''hex string without 0x prefix into Go value''))"
    by code_simp
  have call1: "replay (Method ?t) (Args ?t)
                 [(GNil, Some (ExtError 7 ''hex string without 0x prefix into Go value''))]
               = ((GNil, Some (ExtError 7 ''hex string without 0x prefix into Go value'')), [])"
    by simp
  have call2: "replay (Method ?t) (Args ?t) [(GString ''0x4717'', None)]
               = ((GString ''0x4717'', None), [])"
    by simp
  from expect_error_routing
         [where t = ?t and MustCompile = literal_regexp and pat = "''without 0x prefix''"
            and r = "literal_match ''without 0x prefix''" and CallContext = replay
            and w = "[(GNil, Some (ExtError 7 ''hex string without 0x prefix into Go value''))]"
            and result = GNil and e = "ExtError 7 ''hex string without 0x prefix into Go value''"
            and ?w1.0 = "[]", OF a b c]
       call1 m
  have 1: "run_test replay ?t [(GNil, Some (ExtError 7 ''hex string without 0x prefix into Go value''))]
           = (None, [running_event (Method ?t), validated_event (Method ?t)], [])"
    by blast
  from expect_error_routing
         [where t = ?t and MustCompile = literal_regexp and pat = "''without 0x prefix''"
            and r = "literal_match ''without 0x prefix''" and CallContext = replay
            and w = "[(GString ''0x4717'', None)]"
            and result = "GString ''0x4717''" and ?w1.0 = "[]", OF a b c]
       call2
  have 2: "run_test replay ?t [(GString ''0x4717'', None)]
           = (None,
              [running_event (Method ?t),
               validation_failed_event (Method ?t)
                 (Some (Errorf ''Invalid result type. Expected error but got %T'' [GNil]))],
              [])"
    by blast
  from 1 2 show ?thesis by simp
qed

text \<open>
  C1, as the claim states it, fails on the case \<^verbatim>\<open>RPCTestWeb3SHA3Error\<close> when the node
  answers the call with a result: the engine does not log the call failure
  \<^verbatim>\<open>Method test failed\<close>. It logs \<^verbatim>\<open>Failed to validate\<close> with the error that the
  validator returned on \<^verbatim>\<open>nil\<close>.
\<close>

theorem expect_error_normal_result_counterexample:
  "run_test replay
     \<lparr>Method = ''web3_sha3'', Args = [GString ''68656c6c6f20776f726c64''],
      Validator = projr (ValidateError literal_regexp ''cannot unmarshal hex string without 0x prefix''),
      IsError = True\<rparr>
     [(GString ''0x47173285a8d7341e5e972fc677286384f802f8ef42a5ec5f03bbfa254cb01fad'', None)]
   = (None,
      [running_event ''web3_sha3'',
       validation_failed_event ''web3_sha3''
         (Some (Errorf ''Invalid result type. Expected error but got %T'' [GNil]))],
      [])
   \<and> validation_failed_event ''web3_sha3''
         (Some (Errorf ''Invalid result type. Expected error but got %T'' [GNil]))
       \<noteq> call_failed_event ''web3_sha3'' None"
  by (simp add: run_test_call [where result = "GString ''0x47173285a8d7341e5e972fc677286384f802f8ef42a5ec5f03bbfa254cb01fad''" and err = None and ?w1.0 = "[]"]
        ValidateError_def literal_regexp_def validation_failed_event_def call_failed_event_def)

section \<open>The loop\<close>

lemma run_test_stateless:
  assumes st: "stateless (Validator t)" and rt: "returns (Validator t)"
    and call: "CallContext (Method t) (Args t) w = (outcome, w1)"
  shows "run_test CallContext t w =
     (None, [running_event (Method t), verdict_event (Method t) (test_verdict t outcome w0)], w1)"
proof -
  obtain result err where outcome: "outcome = (result, err)"
    by (cases outcome)
  let ?obs = "if IsError t then error_iface err else result"
  obtain res w2 where v: "Validator t ?obs w1 = (res, w2)"
    by (cases "Validator t ?obs w1")
  from st v have w2: "w2 = w1"
    unfolding stateless_def by (metis snd_conv)
  from st v have res0: "fst (Validator t ?obs w0) = res"
    unfolding stateless_def by (metis fst_conv)
  from rt v obtain d where res: "res = Inr d"
    unfolding returns_def by (metis fst_conv isl_def sum.exhaust)
  show ?thesis
    using call outcome v w2 res res0
    by (cases err; cases d)
       (auto simp add: run_test_call [where result = result and err = err and ?w1.0 = w1]
          test_verdict_def split: if_splits)
qed

text \<open>
  C7. For every registry of stateless validators that return, and whatever the node
  answers, the engine calls the node once for each case in the order of the registry
  (the outcomes are those of \<open>call_outcomes\<close>), never stops early (no panic, and every
  case is reached), and logs for each case, in that order, the line that it runs and
  the line of its verdict. The verdict of a case is \<open>test_verdict\<close> of that case and of
  the outcome of its own call: the call error or the validation failure of a case
  changes nothing in what is executed and logged for the others.
\<close>

theorem engine_verdicts:
  assumes "\<forall>t\<in>set tests. stateless (Validator t) \<and> returns (Validator t)"
  shows "run_tests CallContext tests w =
     (None,
      concat (map2 (\<lambda>t outcome. [running_event (Method t),
                                  verdict_event (Method t) (test_verdict t outcome w0)])
                tests (fst (call_outcomes CallContext tests w))),
      snd (call_outcomes CallContext tests w))
    \<and> length (fst (call_outcomes CallContext tests w)) = length tests"
  using assms
proof (induction tests arbitrary: w)
  case Nil
  then show ?case by simp
next
  case (Cons t ts)
  obtain outcome w1 where call: "CallContext (Method t) (Args t) w = (outcome, w1)"
    by (cases "CallContext (Method t) (Args t) w")
  from Cons.prems have "stateless (Validator t)" "returns (Validator t)"
    by simp_all
  then have step: "run_test CallContext t w =
     (None, [running_event (Method t), verdict_event (Method t) (test_verdict t outcome w0)], w1)"
    using call by (rule run_test_stateless)
  from Cons.prems have "\<forall>t\<in>set ts. stateless (Validator t) \<and> returns (Validator t)"
    by simp
  then have IH: "run_tests CallContext ts w1 =
     (None,
      concat (map2 (\<lambda>t outcome. [running_event (Method t),
                                  verdict_event (Method t) (test_verdict t outcome w0)])
                ts (fst (call_outcomes CallContext ts w1))),
      snd (call_outcomes CallContext ts w1))
    \<and> length (fst (call_outcomes CallContext ts w1)) = length ts"
    by (rule Cons.IH)
  obtain os w2 where co: "call_outcomes CallContext ts w1 = (os, w2)"
    by (cases "call_outcomes CallContext ts w1")
  show ?case
    using step IH call co by simp
qed

theorem engine_verdicts_witness:
  "run_tests replay
        [\<lparr>Method = ''net_listening'', Args = [], Validator = ValidateExact (GBool True), IsError = False\<rparr>,
         \<lparr>Method = ''eth_mining'', Args = [],
          Validator = ChainValidator [ValidateExact (GBool True), ValidateExact (GBool False)],
          IsError = False\<rparr>,
         \<lparr>Method = ''net_listening'', Args = [], Validator = ValidateExact (GBool True), IsError = False\<rparr>]
        [(GNil, Some (ExtError 7 ''EOF'')), (GBool False, None), (GBool False, None)]
      = (None,
         [running_event ''net_listening'', call_failed_event ''net_listening'' (Some (ExtError 7 ''EOF'')),
          running_event ''eth_mining'', validated_event ''eth_mining'',
          running_event ''net_listening'',
          validation_failed_event ''net_listening''
            (Some (Errorf ''Expected %v and got %v'' [GBool True, GBool False]))],
         [])"
proof -
  let ?tests = "[\<lparr>Method = ''net_listening'', Args = [], Validator = ValidateExact (GBool True), IsError = False\<rparr>,
         \<lparr>Method = ''eth_mining'', Args = [],
          Validator = ChainValidator [ValidateExact (GBool True), ValidateExact (GBool False)],
          IsError = False\<rparr>,
         \<lparr>Method = ''net_listening'', Args = [], Validator = ValidateExact (GBool True), IsError = False\<rparr>]
       :: (call_outcome list) RPCTestGeneric list"
  have h: "\<forall>t\<in>set ?tests. stateless (Validator t) \<and> returns (Validator t)"
    by (simp add: stateless_ValidateExact returns_ValidateExact_bool
          stateless_ChainValidator returns_ChainValidator)
  let ?ws = "[(GNil, Some (ExtError 7 ''EOF'')), (GBool False, None), (GBool False, None)]"
  let ?outcomes = "fst (call_outcomes replay ?tests ?ws)"
  let ?evs = "concat (map2 (\<lambda>t outcome. [running_event (Method t),
                                  verdict_event (Method t) (test_verdict t outcome [])])
                ?tests ?outcomes)"
  have F: "run_tests replay ?tests ?ws = (None, ?evs, snd (call_outcomes replay ?tests ?ws))"
    using engine_verdicts
         [where tests = ?tests and CallContext = replay and ?w0.0 = "[]" and w = ?ws, OF h]
    by blast
  have E: "?evs =
         [running_event ''net_listening'', call_failed_event ''net_listening'' (Some (ExtError 7 ''EOF'')),
          running_event ''eth_mining'', validated_event ''eth_mining'',
          running_event ''net_listening'',
          validation_failed_event ''net_listening''
            (Some (Errorf ''Expected %v and got %v'' [GBool True, GBool False]))]"
    by (simp add: test_verdict_def ValidateExact_def)
  have S: "snd (call_outcomes replay ?tests ?ws) = []"
    by simp
  from F E S have "run_tests replay ?tests ?ws =
      (None,
         [running_event ''net_listening'', call_failed_event ''net_listening'' (Some (ExtError 7 ''EOF'')),
          running_event ''eth_mining'', validated_event ''eth_mining'',
          running_event ''net_listening'',
          validation_failed_event ''net_listening''
            (Some (Errorf ''Expected %v and got %v'' [GBool True, GBool False]))],
         [])"
    by (simp only:)
  then show ?thesis .
qed


section \<open>Building the registry\<close>

lemma new_test_config:
  assumes "testEthAddress g' = testEthAddress g"
    and "testContractAddress g' = testContractAddress g"
  shows "new_test e g' x = new_test e g x"
  using assms by (cases x) (simp_all add: storage_pattern_def)

lemma setup_steps_result:
  assumes "setup_steps e xs g = Inr g'"
  shows "allTests g' = allTests g @ xs
    \<and> testEthAddress g' = testEthAddress g
    \<and> testContractAddress g' = testContractAddress g
    \<and> testPrivateHexKey g' = testPrivateHexKey g
    \<and> testPrivateKey g' = testPrivateKey g
    \<and> (\<forall>x. test_vars g' x = (if x \<in> set xs then projr (new_test e g x) else test_vars g x))
    \<and> (\<forall>x\<in>set xs. \<not> isl (new_test e g x))"
  using assms
proof (induction xs arbitrary: g)
  case Nil
  then show ?case by simp
next
  case (Cons x xs)
  from Cons.prems obtain t where t: "new_test e g x = Inr t"
    by (cases "new_test e g x") simp_all
  let ?g1 = "g\<lparr>test_vars := (test_vars g)(x := t), allTests := allTests g @ [x]\<rparr>"
  from Cons.prems t have steps: "setup_steps e xs ?g1 = Inr g'"
    by simp
  have same: "new_test e ?g1 y = new_test e g y" for y
    by (rule new_test_config) simp_all
  from Cons.IH [OF steps] show ?case
    by (simp add: same t)
qed

lemma setup_steps_returns:
  assumes "\<forall>x\<in>set xs. \<not> isl (new_test e g x)"
  shows "\<exists>g'. setup_steps e xs g = Inr g'"
  using assms
proof (induction xs arbitrary: g)
  case Nil
  then show ?case by simp
next
  case (Cons x xs)
  from Cons.prems obtain t where t: "new_test e g x = Inr t"
    by (cases "new_test e g x") simp_all
  let ?g1 = "g\<lparr>test_vars := (test_vars g)(x := t), allTests := allTests g @ [x]\<rparr>"
  have same: "new_test e ?g1 y = new_test e g y" for y
    by (rule new_test_config) simp_all
  from Cons.prems have "\<forall>y\<in>set xs. \<not> isl (new_test e ?g1 y)"
    by (simp add: same)
  then have "\<exists>g'. setup_steps e xs ?g1 = Inr g'"
    by (rule Cons.IH)
  with t show ?case by simp
qed

lemma setup_order_all: "x \<in> set setup_order"
  by (cases x) (simp_all add: setup_order_def)

lemma setup_order_distinct: "distinct setup_order \<and> length setup_order = 25"
  by (simp add: setup_order_def)

lemma setupTests_twice:
  assumes "setupTests e g = Inr g1"
  shows "\<exists>g2. setupTests e g1 = Inr g2
          \<and> allTests g2 = allTests g1 @ setup_order
          \<and> test_vars g2 = test_vars g1"
proof -
  from assms have steps: "setup_steps e setup_order g = Inr g1"
    by (simp add: setupTests_def)
  note r1 = setup_steps_result [OF steps]
  have same: "new_test e g1 x = new_test e g x" for x
    using r1 by (intro new_test_config) simp_all
  from r1 have "\<forall>x\<in>set setup_order. \<not> isl (new_test e g1 x)"
    by (simp add: same)
  then obtain g2 where steps2: "setup_steps e setup_order g1 = Inr g2"
    using setup_steps_returns by blast
  note r2 = setup_steps_result [OF steps2]
  have "test_vars g2 x = test_vars g1 x" for x
    using r1 r2 by (simp add: same setup_order_all)
  then have "test_vars g2 = test_vars g1"
    by (rule ext)
  with steps2 r2 show ?thesis
    by (simp add: setupTests_def)
qed

lemma env_double_new_test: "\<not> isl (new_test env_double g x)"
  by (cases x)
     (simp_all add: env_double_def literal_regexp_def ValidateRegexString_def ValidateError_def
        RPCTestGeneric_lit_def storage_pattern_def slice_from_2_def ascii_ToLower_def)

lemma env_double_setupTests: "\<exists>g1. setupTests env_double g = Inr g1"
  unfolding setupTests_def
  by (rule setup_steps_returns) (simp add: env_double_new_test)

text \<open>
  C10. \<^verbatim>\<open>setupTests\<close> appends its 25 pointers, which are distinct, to \<^verbatim>\<open>allTests\<close> and
  removes nothing. When it has returned once it returns again, and the second call
  leaves every entry in place and appends the same 25 pointers once more: the registry
  has 50 more entries than at the start and holds duplicates, and the variables hold the
  same test cases as after the first call. From the empty registry, the entries are
  distinct after one call only.
\<close>

theorem setupTests_appends:
  assumes "setupTests e g = Inr g1"
  shows "allTests g1 = allTests g @ setup_order
    \<and> length setup_order = 25 \<and> distinct setup_order
    \<and> (\<exists>g2. setupTests e g1 = Inr g2
          \<and> allTests g2 = allTests g @ setup_order @ setup_order
          \<and> length (allTests g2) = length (allTests g) + 50
          \<and> \<not> distinct (allTests g2)
          \<and> test_vars g2 = test_vars g1)
    \<and> (allTests g = [] \<longrightarrow> distinct (allTests g1) \<and> length (allTests g1) = 25)"
proof -
  from assms have steps: "setup_steps e setup_order g = Inr g1"
    by (simp add: setupTests_def)
  from setup_steps_result [OF steps] have a1: "allTests g1 = allTests g @ setup_order"
    by simp
  from setupTests_twice [OF assms] obtain g2 where g2: "setupTests e g1 = Inr g2"
    and a2: "allTests g2 = allTests g1 @ setup_order" and v2: "test_vars g2 = test_vars g1"
    by blast
  have nd: "\<not> distinct (xs @ setup_order @ setup_order)" for xs
    by (simp add: setup_order_def)
  from a1 a2 have "allTests g2 = allTests g @ setup_order @ setup_order"
    by simp
  moreover from this have "length (allTests g2) = length (allTests g) + 50"
    by (simp add: setup_order_distinct)
  moreover from \<open>allTests g2 = allTests g @ setup_order @ setup_order\<close>
  have "\<not> distinct (allTests g2)"
    by (simp only: nd not_False_eq_True)
  ultimately have "\<exists>g2. setupTests e g1 = Inr g2
          \<and> allTests g2 = allTests g @ setup_order @ setup_order
          \<and> length (allTests g2) = length (allTests g) + 50
          \<and> \<not> distinct (allTests g2)
          \<and> test_vars g2 = test_vars g1"
    using g2 v2 by blast
  with a1 show ?thesis
    by (simp add: setup_order_distinct)
qed

theorem setupTests_appends_witness:
  "\<exists>g1. setupTests env_double globals_double = Inr g1
     \<and> allTests g1 = setup_order \<and> distinct (allTests g1) \<and> length (allTests g1) = 25
     \<and> (\<exists>g2. setupTests env_double g1 = Inr g2
           \<and> allTests g2 = setup_order @ setup_order
           \<and> length (allTests g2) = 50
           \<and> \<not> distinct (allTests g2))"
proof -
  from env_double_setupTests obtain g1 where g1: "setupTests env_double globals_double = Inr g1"
    by blast
  have empty: "allTests globals_double = []"
    by (simp add: globals_double_def initial_globals_def)
  from setupTests_appends [OF g1] empty g1 show ?thesis
    by auto
qed

section \<open>The result of the command\<close>

lemma RPCTestGeneric_lit_returns:
  assumes "RPCTestGeneric_lit isError m args pv = Inr t"
    and "\<And>v. pv = Inr v \<Longrightarrow> returns v"
  shows "returns (Validator t)"
  using assms by (cases pv) (auto simp add: RPCTestGeneric_lit_def)

lemma new_test_returns:
  assumes "new_test e g x = Inr t"
  shows "returns (Validator t)"
proof -
  have chain2: "returns (ChainValidator [a, b])" if "returns a" "returns b" for a b :: "'a validator"
    using that by (simp add: returns_ChainValidator)
  show ?thesis
    using assms
    by (cases x)
       (auto elim!: RPCTestGeneric_lit_returns
             intro: returns_ValidateRegexString returns_ValidateError returns_ValidateExact_bool
                    returns_ValidateJSONSchema chain2
             split: sum.splits)
qed

lemma run_test_returns:
  assumes "returns (Validator t)"
  shows "fst (run_test CallContext t w) = None"
proof -
  obtain result err w1 where call: "CallContext (Method t) (Args t) w = ((result, err), w1)"
    by (metis prod.collapse)
  let ?obs = "if IsError t then error_iface err else result"
  obtain res w2 where v: "Validator t ?obs w1 = (res, w2)"
    by (cases "Validator t ?obs w1")
  from assms v obtain d where res: "res = Inr d"
    unfolding returns_def by (metis fst_conv isl_def sum.exhaust)
  show ?thesis
    using v res by (cases d) (simp_all add: run_test_call [where CallContext = CallContext and t = t and w = w
             and result = result and err = err and ?w1.0 = w1, OF call])
qed

lemma run_tests_returns:
  assumes "\<forall>t\<in>set tests. returns (Validator t)"
  shows "fst (run_tests CallContext tests w) = None"
  using assms
proof (induction tests arbitrary: w)
  case Nil
  then show ?case by simp
next
  case (Cons t ts)
  from Cons.prems have "fst (run_test CallContext t w) = None"
    by (simp add: run_test_returns)
  then obtain evs w' where step: "run_test CallContext t w = (None, evs, w')"
    by (metis fst_conv prod.collapse)
  from Cons.prems have "\<forall>t\<in>set ts. returns (Validator t)" by simp
  then have "fst (run_tests CallContext ts w') = None"
    by (rule Cons.IH)
  with step show ?case
    by (simp add: split_beta)
qed

lemma setupTests_registry_returns:
  assumes "setupTests e g = Inr g1"
  shows "returns (Validator (test_vars g1 x))"
proof -
  from assms have steps: "setup_steps e setup_order g = Inr g1"
    by (simp add: setupTests_def)
  from setup_steps_result [OF steps] setup_order_all
  have var: "test_vars g1 x = projr (new_test e g x)" and ok: "\<not> isl (new_test e g x)"
    by simp_all
  from ok obtain t where t: "new_test e g x = Inr t"
    by (cases "new_test e g x") simp_all
  with var have "test_vars g1 x = t" by simp
  with t show ?thesis
    by (simp add: new_test_returns)
qed


text \<open>
  C8. When the command returns an error, the setup has failed: the number of arguments
  is not one, or the private key is refused, or the connection to the endpoint fails;
  and no test has run (the log has no line \<^verbatim>\<open>Running Test\<close>). When the setup succeeds
  (one argument, a private key that is accepted, a connection, and \<^verbatim>\<open>setupTests\<close>
  returns), the command returns \<^verbatim>\<open>nil\<close>, whatever the node answers to the calls and
  however many cases fail.
\<close>

theorem RPCFuzzCmd_result:
  "(fst (RPCFuzzCmd_execute e args g w) = Inr (Some err) \<longrightarrow>
      ((length args \<noteq> 1 \<and> err = Errorf ''Expected 1 argument, but got %d'' [GInt (of_nat (length args))])
       \<or> (\<exists>x. ethcrypto_HexToECDSA e (testPrivateHexKey g) = Inl x \<and> err = LibError x)
       \<or> (\<exists>url x w1. args = [url] \<and> rpc_DialContext e url w = (Inl x, w1) \<and> err = LibError x))
      \<and> (\<forall>ev\<in>set (fst (snd (RPCFuzzCmd_execute e args g w))). ev_msg ev \<noteq> ''Running Test''))
   \<and> (\<forall>url k rpcClient w1 g1.
        args = [url] \<longrightarrow>
        ethcrypto_HexToECDSA e (testPrivateHexKey g) = Inr k \<longrightarrow>
        rpc_DialContext e url w = (Inr rpcClient, w1) \<longrightarrow>
        setupTests e (g\<lparr>testPrivateKey := Some k, testEthAddress := ethcrypto_PubkeyToAddress e k\<rparr>) = Inr g1 \<longrightarrow>
        fst (RPCFuzzCmd_execute e args g w) = Inr None)"
proof (intro conjI impI allI)
  assume res: "fst (RPCFuzzCmd_execute e args g w) = Inr (Some err)"
  show "(length args \<noteq> 1 \<and> err = Errorf ''Expected 1 argument, but got %d'' [GInt (of_nat (length args))])
       \<or> (\<exists>x. ethcrypto_HexToECDSA e (testPrivateHexKey g) = Inl x \<and> err = LibError x)
       \<or> (\<exists>url x w1. args = [url] \<and> rpc_DialContext e url w = (Inl x, w1) \<and> err = LibError x)"
    using res
    by (auto simp add: RPCFuzzCmd_execute_def RPCFuzzCmd_Args_def RPCFuzzCmd_RunE_def Let_def
          length_Suc_conv
          split: if_splits sum.splits list.splits prod.splits option.splits)
  show "\<forall>ev\<in>set (fst (snd (RPCFuzzCmd_execute e args g w))). ev_msg ev \<noteq> ''Running Test''"
    using res
    by (auto simp add: RPCFuzzCmd_execute_def RPCFuzzCmd_Args_def RPCFuzzCmd_RunE_def Let_def
          split: if_splits sum.splits list.splits prod.splits option.splits)
next
  fix url k rpcClient w1 g1
  assume args: "args = [url]"
    and key: "ethcrypto_HexToECDSA e (testPrivateHexKey g) = Inr k"
    and dial: "rpc_DialContext e url w = (Inr rpcClient, w1)"
    and stp: "setupTests e (g\<lparr>testPrivateKey := Some k, testEthAddress := ethcrypto_PubkeyToAddress e k\<rparr>) = Inr g1"
  have "\<forall>t\<in>set (map (test_vars g1) (allTests g1)). returns (Validator t)"
    using setupTests_registry_returns [OF stp] by simp
  then have "fst (run_tests rpcClient (map (test_vars g1) (allTests g1)) w1) = None"
    by (rule run_tests_returns)
  then obtain evs w2 where loop: "run_tests rpcClient (map (test_vars g1) (allTests g1)) w1 = (None, evs, w2)"
    by (metis fst_conv prod.collapse)
  show "fst (RPCFuzzCmd_execute e args g w) = Inr None"
    using args key dial stp loop
    by (simp add: RPCFuzzCmd_execute_def RPCFuzzCmd_Args_def RPCFuzzCmd_RunE_def Let_def)
qed


theorem RPCFuzzCmd_result_witness:
  "fst (RPCFuzzCmd_execute env_double [] globals_double [])
     = Inr (Some (Errorf ''Expected 1 argument, but got %d'' [GInt 0]))
   \<and> fst (RPCFuzzCmd_execute env_double [''http://localhost:8545''] globals_double
            [(GNil, Some (ExtError 7 ''EOF'')), (GBool False, None)])
     = Inr None"
proof -
  let ?k = "0x42b6e34dc21598a807dc19d7784c71b2a7a01f6480dc6f58258f78e539f1a1fa :: nat"
  let ?ws = "[(GNil, Some (ExtError 7 ''EOF'')), (GBool False, None)] :: call_outcome list"
  have bad: "fst (RPCFuzzCmd_execute env_double [] globals_double [])
     = Inr (Some (Errorf ''Expected 1 argument, but got %d'' [GInt 0]))"
    by (simp add: RPCFuzzCmd_execute_def RPCFuzzCmd_Args_def)
  have key: "ethcrypto_HexToECDSA env_double (testPrivateHexKey globals_double) = Inr ?k"
    by (simp add: env_double_def globals_double_def initial_globals_def)
  have dial: "rpc_DialContext env_double ''http://localhost:8545'' ?ws = (Inr replay, ?ws)"
    by (simp add: env_double_def)
  obtain g1 where g1: "setupTests env_double
      (globals_double\<lparr>testPrivateKey := Some ?k,
                       testEthAddress := ethcrypto_PubkeyToAddress env_double ?k\<rparr>) = Inr g1"
    using env_double_setupTests by blast
  from RPCFuzzCmd_result
         [where e = env_double and args = "[''http://localhost:8545'']" and g = globals_double
            and w = ?ws]
       key dial g1
  have "fst (RPCFuzzCmd_execute env_double [''http://localhost:8545''] globals_double ?ws) = Inr None"
    by blast
  with bad show ?thesis
    by (rule conjI)
qed


end
